theory Spec2Isabelle
  imports Complex_Main
begin

section \<open>Numbers and strings of the source language\<close>

text \<open>
  A JavaScript number is an IEEE 754 binary64 value. User and movie identifiers are
  database row ids, the routes read \<open>limit\<close> with \<open>parseInt\<close>, and \<open>Date.now()\<close> counts
  milliseconds: these are integers, modelled as \<open>int\<close>. A score is a binary64 value that
  need not be an integer; it is modelled by the rational number it denotes, and every
  arithmetic operation on scores rounds its exact result to the nearest binary64 value,
  ties to even (\<open>fl\<close>). The exponent range is left unbounded: all the scores that the
  service computes itself are zero or lie between \<open>2 ^ - 60\<close> and \<open>2 ^ 28\<close> in
  magnitude, far from overflow and from the subnormal numbers.

  \<open>bitlen n\<close> is the number of binary digits of a positive integer, \<open>binade x\<close> the
  exponent \<open>e\<close> with \<open>2 ^ e \<le> x < 2 ^ (e + 1)\<close> for a positive rational.
\<close>

function bitlen :: "int \<Rightarrow> int" where
  "bitlen n = (if n \<le> 0 then 0 else 1 + bitlen (n div 2))"
  by pat_completeness auto
termination
  by (relation "measure nat") auto

definition pow2 :: "int \<Rightarrow> rat" where
  "pow2 e = (if 0 \<le> e then 2 ^ nat e else 1 / 2 ^ nat (- e))"

definition binade :: "rat \<Rightarrow> int" where
  "binade x =
     (let (p, q) = quotient_of x;
          d = bitlen p - bitlen q
      in if pow2 d \<le> x then d else d - 1)"

definition round_even :: "rat \<Rightarrow> int" where
  "round_even m =
     (let f = \<lfloor>m\<rfloor>; r = m - of_int f
      in if r < 1 / 2 then f
         else if 1 / 2 < r then f + 1
         else if even f then f else f + 1)"

definition fl :: "rat \<Rightarrow> rat" where
  "fl x =
     (if x = 0 then 0
      else let a = \<bar>x\<bar>; u = pow2 (binade a - 52)
           in sgn x * of_int (round_even (a / u)) * u)"

text \<open>
  A template literal \<open>`${n}`\<close> prints an integer in decimal, with a minus sign when it
  is negative (this is the conversion of the language for integers below \<open>10 ^ 21\<close> in
  magnitude). \<open>str_includes s frag\<close> is \<open>s.includes(frag)\<close>: the fragment occurs somewhere in
  the string.
\<close>

definition digit_char :: "int \<Rightarrow> char" where
  "digit_char n = ''0123456789'' ! nat n"

function digits :: "int \<Rightarrow> string" where
  "digits n =
     (if n < 10 then [digit_char n]
      else digits (n div 10) @ [digit_char (n mod 10)])"
  by pat_completeness auto
termination
  by (relation "measure nat") auto

definition toString :: "int \<Rightarrow> string" where
  "toString i = (if i < 0 then CHR ''-'' # digits (- i) else digits i)"

fun starts_with :: "string \<Rightarrow> string \<Rightarrow> bool" where
  "starts_with s [] = True"
| "starts_with [] (c # cs) = False"
| "starts_with (x # xs) (c # cs) = (x = c \<and> starts_with xs cs)"

fun str_includes :: "string \<Rightarrow> string \<Rightarrow> bool" where
  "str_includes [] frag = (frag = [])"
| "str_includes (x # xs) frag = (starts_with (x # xs) frag \<or> str_includes xs frag)"

text \<open>
  \<open>xs.slice(0, stop)\<close> for an integer \<open>stop\<close>: a negative one counts from the back of the
  array, and the result never reaches beyond the array.
\<close>

definition slice_to :: "'a list \<Rightarrow> int \<Rightarrow> 'a list" where
  "slice_to xs stop =
     (let len = int (length xs);
          final = (if stop < 0 then max (len + stop) 0 else min stop len)
      in take (nat final) xs)"

text \<open>
  What a function of the service can raise. A rejected promise of the database helper
  or of the HTTP client carries an error object with a message; the array constructor
  raises a \<open>RangeError\<close>.
\<close>

datatype error = Rejected string | RangeError string

fun message :: "error \<Rightarrow> string" where
  "message (Rejected m) = m"
| "message (RangeError m) = m"

text \<open>
  \<open>Array.from({ length: n }, (_, i) => f(i))\<close> for an integer \<open>n\<close>: the length is
  clamped to the range from \<open>0\<close> to \<open>2 ^ 53 - 1\<close>, the array constructor refuses a length
  above \<open>2 ^ 32 - 1\<close> with a \<open>RangeError\<close>, and otherwise the array holds \<open>f(i)\<close> at
  each index \<open>i\<close> below the length.
\<close>

definition array_from_length :: "int \<Rightarrow> (int \<Rightarrow> 'a) \<Rightarrow> error + 'a list" where
  "array_from_length n f =
     (let len = (if n \<le> 0 then 0 else min n (2 ^ 53 - 1))
      in if 2 ^ 32 - 1 < len then Inl (RangeError ''Invalid array length'')
         else Inr (map f [0..len - 1]))"

section \<open>The expiring cache of the ML service\<close>

text \<open>
  The service module (\<open>services/ml.service.js\<close>, the last part of the source) keeps one
  in-memory object \<open>cache\<close> whose field \<open>data\<close> maps a key to an item
  \<open>{ value, expiry }\<close>. The object is a dictionary from strings to items, modelled as a
  map. Every key the service builds starts with \<open>rec:user:\<close> or \<open>similar:\<close>, so no key
  names a property inherited from the object prototype, and a key that was never stored
  reads as \<open>undefined\<close>, which is \<open>None\<close> here.

  \<open>Date.now()\<close> is an integer number of milliseconds; each function that reads the clock
  takes the reading as the argument \<open>now\<close>. The \<open>null\<close> that \<open>get\<close> returns on a miss is
  \<open>None\<close>; the value of a live item is returned under \<open>Some\<close>.
\<close>

record 'v item =
  item_value :: 'v
  item_expiry :: int

type_synonym 'v cache_data = "string \<rightharpoonup> 'v item"

definition cache_set :: "string \<Rightarrow> 'v \<Rightarrow> int \<Rightarrow> int \<Rightarrow> 'v cache_data \<Rightarrow> 'v cache_data" where
  "cache_set key v ttlSeconds now d =
     d(key \<mapsto> \<lparr>item_value = v, item_expiry = now + ttlSeconds * 1000\<rparr>)"

definition cache_get :: "string \<Rightarrow> int \<Rightarrow> 'v cache_data \<Rightarrow> 'v option \<times> 'v cache_data" where
  "cache_get key now d =
     (case d key of
        None \<Rightarrow> (None, d)
      | Some it \<Rightarrow>
          if now > item_expiry it then (None, d(key := None))
          else (Some (item_value it), d))"

definition cache_clear :: "'v cache_data \<Rightarrow> 'v cache_data" where
  "cache_clear d = Map.empty"

section \<open>The scoring client\<close>

text \<open>
  A scoring result is the object \<open>{ movie_ids, scores, method }\<close> of the ranking
  service's wire contract; its field \<open>method\<close> is \<open>method_tag\<close> here. The service's
  answer (\<open>response.data\<close>) is taken to be such an object; an object is truthy, so the
  test \<open>if (cached)\<close> succeeds exactly when \<open>cache.get\<close> returned a value.
\<close>

record scoring_result =
  movie_ids :: "int list"
  scores :: "rat list"
  method_tag :: string

text \<open>
  The three queries that the service sends through \<open>dbAsync.all\<close>, each with the user
  id as its parameter, and the rows they return. The query for likes selects the movie id
  only, so its rows carry no rating.
\<close>

datatype query =
    RatingsNewestFirst int
  | LikedMovies int
  | Ratings int

record row =
  movie_id :: int
  rating :: "rat option"

text \<open>
  The three requests that the service posts to the ranking service:
  \<open>/api/ml/recommendations\<close> with user id, ratings, liked movies and the number of
  recommendations (the method is always \<open>hybrid\<close>), \<open>/api/ml/similar\<close> with movie id and
  number, \<open>/api/ml/collaborative\<close> with user id, ratings and number.
\<close>

datatype request =
    Recommendations int "row list" "int list" int
  | Similar int int
  | Collaborative int "row list" int

text \<open>
  The collaborators of one call, as the call finds them: the two readings of the clock
  (inside \<open>cache.get\<close> and, later, inside \<open>cache.set\<close>), the rows that the store holds
  for each query together with the error, if any, that the database reports instead
  (\<open>dbAsync.all\<close> rejects when the driver passes an error and resolves with the rows
  otherwise), the outcome of each POST to the ranking service (a timeout, a refused
  connection and a non-success status all reject), and the outcome of the GET to its
  health endpoint, whose payload is kept as its JSON text.
\<close>

record env =
  now_get :: int
  now_set :: int
  db_rows :: "query \<Rightarrow> row list"
  db_err :: "query \<Rightarrow> string option"
  axios_post :: "request \<Rightarrow> error + scoring_result"
  axios_get_health :: "error + string"

definition dbAsync_all :: "env \<Rightarrow> query \<Rightarrow> error + row list" where
  "dbAsync_all env q =
     (case db_err env q of
        Some m \<Rightarrow> Inl (Rejected m)
      | None \<Rightarrow> Inr (db_rows env q))"

text \<open>
  The state of the module is the cache. The model also records, in order, every request
  that was posted to the ranking service, so that "no request was issued" can be stated.
  A call is modelled as running to its end without another call in between.
\<close>

record state =
  data :: "scoring_result cache_data"
  requests :: "request list"

definition initial_state :: state where
  "initial_state = \<lparr>data = Map.empty, requests = []\<rparr>"

definition personalized_key :: "int \<Rightarrow> int \<Rightarrow> string" where
  "personalized_key userId limit = ''rec:user:'' @ toString userId @ '':'' @ toString limit"

definition similar_key :: "int \<Rightarrow> int \<Rightarrow> string" where
  "similar_key movieId limit = ''similar:'' @ toString movieId @ '':'' @ toString limit"

text \<open>
  The \<open>catch\<close> block of \<open>getPersonalizedRecommendations\<close>: the fixed list of ten movie
  ids cut by \<open>slice(0, limit)\<close>, and \<open>limit\<close> scores \<open>0.9 - i * 0.05\<close>. The object literal
  evaluates \<open>slice\<close> first, which never raises, then \<open>Array.from\<close>, which may.
\<close>

definition fallback_movie_ids :: "int list" where
  "fallback_movie_ids = [550, 278, 680, 155, 13, 423, 769, 24428, 329, 107]"

definition fallback_score :: "int \<Rightarrow> rat" where
  "fallback_score i = fl (fl (9 / 10) - fl (of_int i * fl (1 / 20)))"

definition personalized_fallback :: "int \<Rightarrow> error + scoring_result" where
  "personalized_fallback limit =
     (let ids = slice_to fallback_movie_ids limit
      in case array_from_length limit fallback_score of
           Inl e \<Rightarrow> Inl e
         | Inr sc \<Rightarrow> Inr \<lparr>movie_ids = ids, scores = sc, method_tag = ''fallback''\<rparr>)"

definition empty_result :: "string \<Rightarrow> scoring_result" where
  "empty_result tag = \<lparr>movie_ids = [], scores = [], method_tag = tag\<rparr>"

text \<open>
  The three operations. Each returns the value that the \<open>async\<close> function resolves with
  (\<open>Inr\<close>) or the error it rejects with (\<open>Inl\<close>), and the state it leaves. Every failure
  inside a \<open>try\<close> block (a rejected query, a rejected POST) leads to the \<open>catch\<close> block.
\<close>

definition getPersonalizedRecommendations ::
  "env \<Rightarrow> int \<Rightarrow> int \<Rightarrow> state \<Rightarrow> (error + scoring_result) \<times> state" where
  "getPersonalizedRecommendations env userId limit st =
     (let cacheKey = personalized_key userId limit;
          (cached, d1) = cache_get cacheKey (now_get env) (data st);
          st1 = st\<lparr>data := d1\<rparr>
      in case cached of
           Some r \<Rightarrow> (Inr r, st1)
         | None \<Rightarrow>
            (case dbAsync_all env (RatingsNewestFirst userId) of
               Inl e \<Rightarrow> (personalized_fallback limit, st1)
             | Inr ratings \<Rightarrow>
                (case dbAsync_all env (LikedMovies userId) of
                   Inl e \<Rightarrow> (personalized_fallback limit, st1)
                 | Inr likes \<Rightarrow>
                    (let req = Recommendations userId ratings (map movie_id likes) limit;
                         st2 = st1\<lparr>requests := requests st1 @ [req]\<rparr>
                     in case axios_post env req of
                          Inl e \<Rightarrow> (personalized_fallback limit, st2)
                        | Inr result \<Rightarrow>
                           (Inr result,
                            st2\<lparr>data := cache_set cacheKey result 3600 (now_set env)
                                            (data st2)\<rparr>)))))"

definition getSimilarMovies ::
  "env \<Rightarrow> int \<Rightarrow> int \<Rightarrow> state \<Rightarrow> (error + scoring_result) \<times> state" where
  "getSimilarMovies env movieId limit st =
     (let cacheKey = similar_key movieId limit;
          (cached, d1) = cache_get cacheKey (now_get env) (data st);
          st1 = st\<lparr>data := d1\<rparr>
      in case cached of
           Some r \<Rightarrow> (Inr r, st1)
         | None \<Rightarrow>
            (let req = Similar movieId limit;
                 st2 = st1\<lparr>requests := requests st1 @ [req]\<rparr>
             in case axios_post env req of
                  Inl e \<Rightarrow> (Inr (empty_result ''fallback''), st2)
                | Inr result \<Rightarrow>
                   (Inr result,
                    st2\<lparr>data := cache_set cacheKey result 7200 (now_set env)
                                    (data st2)\<rparr>)))"

definition getCollaborativeRecommendations ::
  "env \<Rightarrow> int \<Rightarrow> int \<Rightarrow> state \<Rightarrow> (error + scoring_result) \<times> state" where
  "getCollaborativeRecommendations env userId limit st =
     (case dbAsync_all env (Ratings userId) of
        Inl e \<Rightarrow> (Inr (empty_result ''fallback''), st)
      | Inr ratings \<Rightarrow>
         if length ratings = 0 then (Inr (empty_result ''no_data''), st)
         else
           (let req = Collaborative userId ratings limit;
                st2 = st\<lparr>requests := requests st @ [req]\<rparr>
            in case axios_post env req of
                 Inl e \<Rightarrow> (Inr (empty_result ''fallback''), st2)
               | Inr result \<Rightarrow> (Inr result, st2)))"

text \<open>
  \<open>clearUserCache\<close> visits every key of the cache and deletes the keys that include
  \<open>user:<userId>\<close>; deleting one key leaves the others as they are, so the loop amounts
  to the restriction of the map to the keys that do not include the fragment.
\<close>

definition clearUserCache :: "int \<Rightarrow> state \<Rightarrow> state" where
  "clearUserCache userId st =
     st\<lparr>data := (\<lambda>key. if str_includes key (''user:'' @ toString userId) then None
                        else data st key)\<rparr>"

text \<open>
  \<open>checkHealth\<close> returns the payload of the health endpoint, or the object
  \<open>{ status: 'unhealthy', error: error.message }\<close>.
\<close>

datatype health = Payload string | Unhealthy string

definition checkHealth :: "env \<Rightarrow> error + health" where
  "checkHealth env =
     (case axios_get_health env of
        Inr payload \<Rightarrow> Inr (Payload payload)
      | Inl e \<Rightarrow> Inr (Unhealthy (message e)))"

text \<open>
  A history of calls, each with the collaborators it met, run from a state; the results
  of the calls are dropped and the state is kept.
\<close>

datatype call =
    GetPersonalized int int
  | GetSimilar int int
  | GetCollaborative int int
  | ClearUser int
  | CheckHealth

fun perform :: "env \<Rightarrow> call \<Rightarrow> state \<Rightarrow> state" where
  "perform env (GetPersonalized u n) st = snd (getPersonalizedRecommendations env u n st)"
| "perform env (GetSimilar m n) st = snd (getSimilarMovies env m n st)"
| "perform env (GetCollaborative u n) st = snd (getCollaborativeRecommendations env u n st)"
| "perform env (ClearUser u) st = clearUserCache u st"
| "perform env CheckHealth st = st"

fun run :: "(env \<times> call) list \<Rightarrow> state \<Rightarrow> state" where
  "run [] st = st"
| "run ((env, c) # h) st = run h (perform env c st)"

definition service_down :: "env \<Rightarrow> bool" where
  "service_down env = (\<forall>req. isl (axios_post env req))"

section \<open>The enrichment of a scoring result\<close>

text \<open>
  The three recommendation routes enrich a scoring result with the same code, which
  differs only in the name of the score field (\<open>recommendation_score\<close>,
  \<open>similarity_score\<close>, \<open>predicted_rating\<close>): one GET to the metadata service for each
  movie id, whose payload is spread into a new object together with
  \<open>scores[index]\<close>, or \<open>null\<close> when the GET fails; then \<open>filter(Boolean)\<close> drops the
  \<open>null\<close>s, and the response carries the remaining objects and their number. An index
  beyond the end of \<open>scores\<close> reads \<open>undefined\<close>, which is \<open>None\<close> in the score field.
  The payload of the metadata service is kept as its JSON text.
\<close>

record enriched =
  details :: string
  score_name :: string
  score :: "rat option"

definition index_or_undefined :: "'a list \<Rightarrow> nat \<Rightarrow> 'a option" where
  "index_or_undefined xs i = (if i < length xs then Some (xs ! i) else None)"

definition enrich ::
  "string \<Rightarrow> (int \<Rightarrow> error + string) \<Rightarrow> scoring_result \<Rightarrow> enriched list \<times> nat" where
  "enrich field axios_get_movie mlResult =
     (let movieDetails =
            map (\<lambda>(movieId, index).
                   case axios_get_movie movieId of
                     Inr d \<Rightarrow>
                       Some \<lparr>details = d, score_name = field,
                             score = index_or_undefined (scores mlResult) index\<rparr>
                   | Inl e \<Rightarrow> None)
                (zip (movie_ids mlResult) [0..<length (movie_ids mlResult)]);
          validMovies = map the (filter (\<lambda>m. m \<noteq> None) movieDetails)
      in (validMovies, length validMovies))"

section \<open>Example collaborators\<close>

text \<open>
  Three situations used in the examples below: the ranking service cannot be reached
  while the store holds no rows; the ranking service answers every request with two
  movies; the database rejects every query.
\<close>

definition offline_env :: env where
  "offline_env =
     \<lparr>now_get = 0, now_set = 0,
      db_rows = (\<lambda>q. []), db_err = (\<lambda>q. None),
      axios_post = (\<lambda>req. Inl (Rejected ''timeout of 10000ms exceeded'')),
      axios_get_health = Inl (Rejected ''timeout of 3000ms exceeded'')\<rparr>"

definition online_env :: env where
  "online_env =
     \<lparr>now_get = 0, now_set = 5,
      db_rows = (\<lambda>q. [\<lparr>movie_id = 603, rating = Some 4\<rparr>]), db_err = (\<lambda>q. None),
      axios_post = (\<lambda>req. Inr \<lparr>movie_ids = [603, 604], scores = [1, 1 / 2],
                                 method_tag = ''hybrid''\<rparr>),
      axios_get_health = Inr ''healthy''\<rparr>"

definition db_down_env :: env where
  "db_down_env =
     \<lparr>now_get = 0, now_set = 0,
      db_rows = (\<lambda>q. []), db_err = (\<lambda>q. Some ''SQLITE_BUSY: database is locked''),
      axios_post = (\<lambda>req. Inr \<lparr>movie_ids = [603, 604], scores = [1, 1 / 2],
                                 method_tag = ''collaborative_filtering''\<rparr>),
      axios_get_health = Inr ''healthy''\<rparr>"

section \<open>Properties of the cache\<close>

lemma cache_get_absent: "d key = None \<Longrightarrow> cache_get key now d = (None, d)"
  by (simp add: cache_get_def)

lemma cache_get_after_set:
  "cache_get key now (cache_set key v ttl t0 d) =
     (if now > t0 + ttl * 1000 then (None, d(key := None))
      else (Some v, cache_set key v ttl t0 d))"
  by (simp add: cache_get_def cache_set_def)

text \<open>
  Claim C10. The expiry bound is exclusive: a read at exactly the instant
  \<open>setTime + ttl * 1000\<close> still returns the stored value and leaves the cache as it is,
  and for a stored item the read is a miss exactly when the clock is strictly greater
  than the item's expiry, in which case the item is deleted.
\<close>

theorem cache_expiry_exclusive:
  "cache_get key (t0 + ttl * 1000) (cache_set key v ttl t0 d)
     = (Some v, cache_set key v ttl t0 d)
   \<and> (d key = Some it \<longrightarrow>
        (fst (cache_get key now d) = None \<longleftrightarrow> now > item_expiry it)
      \<and> (now > item_expiry it \<longrightarrow> snd (cache_get key now d) = d(key := None))
      \<and> (\<not> now > item_expiry it \<longrightarrow> cache_get key now d = (Some (item_value it), d)))"
  by (simp add: cache_get_after_set) (simp add: cache_get_def)

theorem cache_expiry_exclusive_witness:
  "cache_get ''similar:42:10'' (1000 + 7200 * 1000)
      (cache_set ''similar:42:10'' (5::nat) 7200 1000 Map.empty)
     = (Some 5, cache_set ''similar:42:10'' 5 7200 1000 Map.empty)
   \<and> [''k'' \<mapsto> \<lparr>item_value = (5::nat), item_expiry = 10\<rparr>] ''k''
        = Some \<lparr>item_value = 5, item_expiry = 10\<rparr>
   \<and> fst (cache_get ''k'' 11 [''k'' \<mapsto> \<lparr>item_value = (5::nat), item_expiry = 10\<rparr>]) = None
   \<and> snd (cache_get ''k'' 11 [''k'' \<mapsto> \<lparr>item_value = (5::nat), item_expiry = 10\<rparr>]) ''k'' = None
   \<and> cache_get ''k'' 10 [''k'' \<mapsto> \<lparr>item_value = (5::nat), item_expiry = 10\<rparr>]
        = (Some 5, [''k'' \<mapsto> \<lparr>item_value = (5::nat), item_expiry = 10\<rparr>])"
  using cache_expiry_exclusive
    [of "''similar:42:10''" 1000 7200 "5::nat" Map.empty
        "\<lparr>item_value = (5::nat), item_expiry = 10\<rparr>" 11]
    cache_expiry_exclusive
    [of "''k''" 0 0 "5::nat" "[''k'' \<mapsto> \<lparr>item_value = (5::nat), item_expiry = 10\<rparr>]"
        "\<lparr>item_value = (5::nat), item_expiry = 10\<rparr>" 10]
    cache_expiry_exclusive
    [of "''k''" 0 0 "5::nat" "[''k'' \<mapsto> \<lparr>item_value = (5::nat), item_expiry = 10\<rparr>]"
        "\<lparr>item_value = (5::nat), item_expiry = 10\<rparr>" 11]
  by simp

text \<open>
  Claim C4. After \<open>set(k, v, t)\<close> at time \<open>t0\<close>, a \<open>get(k)\<close> before \<open>t\<close> seconds have
  elapsed returns \<open>v\<close> and changes nothing; a \<open>get(k)\<close> after they have elapsed returns
  the miss signal, leaves the cache without the key, and gives the same result and the
  same cache as a \<open>get(k)\<close> on the cache in which \<open>k\<close> is absent.
\<close>

theorem cache_set_then_get:
  "(now < t0 + ttl * 1000 \<longrightarrow>
      cache_get key now (cache_set key v ttl t0 d) = (Some v, cache_set key v ttl t0 d))
   \<and> (t0 + ttl * 1000 < now \<longrightarrow>
      cache_get key now (cache_set key v ttl t0 d) = (None, d(key := None))
      \<and> cache_get key now (cache_set key v ttl t0 d) = cache_get key now (d(key := None)))"
  by (simp add: cache_get_after_set cache_get_absent)

theorem cache_set_then_get_witness:
  "(3599999::int) < 0 + 3600 * 1000
   \<and> cache_get ''rec:user:42:10'' 3599999
         (cache_set ''rec:user:42:10'' (7::nat) 3600 0 Map.empty)
       = (Some 7, cache_set ''rec:user:42:10'' 7 3600 0 Map.empty)
   \<and> (0::int) + 3600 * 1000 < 3600001
   \<and> cache_get ''rec:user:42:10'' 3600001
         (cache_set ''rec:user:42:10'' (7::nat) 3600 0 Map.empty)
       = (None, Map.empty)"
  using cache_set_then_get [of 3599999 0 3600 "''rec:user:42:10''" "7::nat" Map.empty]
    cache_set_then_get [of 3600001 0 3600 "''rec:user:42:10''" "7::nat" Map.empty]
  by simp

section \<open>Strings and keys\<close>

lemma starts_with_iff: "starts_with s frag \<longleftrightarrow> (\<exists>q. s = frag @ q)"
  by (induction s frag rule: starts_with.induct) auto

lemma str_includes_iff: "str_includes s frag \<longleftrightarrow> (\<exists>p q. s = p @ frag @ q)"
proof (induction s)
  case Nil
  then show ?case by auto
next
  case (Cons x xs)
  show ?case
  proof
    assume "str_includes (x # xs) frag"
    then consider "starts_with (x # xs) frag" | "str_includes xs frag" by auto
    then show "\<exists>p q. x # xs = p @ frag @ q"
    proof cases
      case 1
      then obtain q where "x # xs = frag @ q" by (auto simp: starts_with_iff)
      then have "x # xs = [] @ frag @ q" by simp
      then show ?thesis by blast
    next
      case 2
      then obtain p q where "xs = p @ frag @ q" using Cons.IH by blast
      then have "x # xs = (x # p) @ frag @ q" by simp
      then show ?thesis by blast
    qed
  next
    assume "\<exists>p q. x # xs = p @ frag @ q"
    then obtain p q where pq: "x # xs = p @ frag @ q" by blast
    show "str_includes (x # xs) frag"
    proof (cases p)
      case Nil
      with pq have "starts_with (x # xs) frag" by (auto simp: starts_with_iff)
      then show ?thesis by simp
    next
      case (Cons y ys)
      with pq have "xs = ys @ frag @ q" by simp
      then have "str_includes xs frag" using Cons.IH by blast
      then show ?thesis by simp
    qed
  qed
qed

lemma personalized_key_42_10: "personalized_key 42 10 = ''rec:user:42:10''"
  by (simp add: personalized_key_def toString_def digit_char_def)

section \<open>Invalidation\<close>

lemma clearUserCache_data:
  "data (clearUserCache userId st) key =
     (if str_includes key (''user:'' @ toString userId) then None else data st key)"
  by (simp add: clearUserCache_def)

lemma clearUserCache_requests: "requests (clearUserCache userId st) = requests st"
  by (simp add: clearUserCache_def)

lemma clearUserCache_removes_exactly:
  "data (clearUserCache userId st) key =
     (if \<exists>p q. key = p @ ''user:'' @ toString userId @ q then None else data st key)"
  using str_includes_iff [of key "''user:'' @ toString userId"]
  by (simp add: clearUserCache_data)

text \<open>
  Claim C2. Clearing the cache of one user must leave the entries of every other user
  intact. The code deletes every key that includes \<open>user:<userId>\<close>, and \<open>user:4\<close> is
  included in the key \<open>rec:user:42:10\<close> of user 42: after a successful personalized call
  for user 42 has stored its result, \<open>clearUserCache(4)\<close> deletes that entry.
\<close>

theorem clearUserCache_deletes_entry_of_other_user:
  "data (snd (getPersonalizedRecommendations online_env 42 10 initial_state))
      (personalized_key 42 10)
     = Some \<lparr>item_value = \<lparr>movie_ids = [603, 604], scores = [1, 1 / 2], method_tag = ''hybrid''\<rparr>,
             item_expiry = 3600005\<rparr>
   \<and> data (clearUserCache 4 (snd (getPersonalizedRecommendations online_env 42 10
        initial_state))) (personalized_key 42 10) = None"
  by (simp add: clearUserCache_data personalized_key_42_10 toString_def digit_char_def)
    (simp add: getPersonalizedRecommendations_def personalized_key_42_10 initial_state_def
      cache_get_def cache_set_def online_env_def dbAsync_all_def Let_def)

section \<open>The fallback of the personalized operation\<close>

text \<open>
  The two constants of the score formula, as the binary64 values that the literals
  \<open>0.9\<close> and \<open>0.05\<close> denote.
\<close>

lemma fl_nine_tenths: "fl (9 / 10) = 8106479329266893 / 2 ^ 53"
  by code_simp

lemma fl_one_twentieth: "fl (1 / 20) = 3602879701896397 / 2 ^ 56"
  by code_simp

lemma personalized_fallback_lengths:
  "personalized_fallback limit = Inr r \<Longrightarrow>
     length (movie_ids r) = nat (if limit < 0 then max (10 + limit) 0 else min limit 10)
   \<and> length (scores r) = nat (max limit 0)"
  by (auto simp: personalized_fallback_def array_from_length_def slice_to_def
      fallback_movie_ids_def Let_def split: if_splits)

lemma personalized_fallback_aligned:
  "0 \<le> limit \<Longrightarrow> limit \<le> 10 \<Longrightarrow>
     \<exists>r. personalized_fallback limit = Inr r \<and> length (movie_ids r) = nat limit
       \<and> length (scores r) = nat limit \<and> method_tag r = ''fallback''"
  by (auto simp: personalized_fallback_def array_from_length_def slice_to_def
      fallback_movie_ids_def Let_def)

lemma personalized_fallback_raises:
  "personalized_fallback limit = Inl e \<longleftrightarrow>
     4294967295 < limit \<and> e = RangeError ''Invalid array length''"
  by (auto simp: personalized_fallback_def array_from_length_def Let_def split: if_splits)

text \<open>
  Claim C1. Every scoring result must have as many movie ids as scores. The fallback of
  the personalized operation cuts its ten fixed ids with \<open>slice(0, limit)\<close> but builds
  \<open>limit\<close> scores: with the ranking service out of reach, user 7 and limit 11 get ten ids
  and eleven scores.
\<close>

theorem personalized_fallback_limit_11_misaligned:
  "map_sum id (\<lambda>r. (length (movie_ids r), length (scores r), method_tag r))
     (fst (getPersonalizedRecommendations offline_env 7 11 initial_state))
   = Inr (10, 11, ''fallback'')"
  by (simp add: getPersonalizedRecommendations_def initial_state_def cache_get_def
      offline_env_def dbAsync_all_def personalized_fallback_def array_from_length_def Let_def
      slice_to_def fallback_movie_ids_def)

section \<open>Which operations can raise\<close>

lemma getSimilarMovies_returns: "\<exists>r. fst (getSimilarMovies env movieId limit st) = Inr r"
  by (simp add: getSimilarMovies_def Let_def split: prod.splits option.splits sum.splits)

lemma getCollaborativeRecommendations_returns:
  "\<exists>r. fst (getCollaborativeRecommendations env userId limit st) = Inr r"
  by (simp add: getCollaborativeRecommendations_def Let_def split: sum.splits)

lemma checkHealth_returns: "\<exists>h. checkHealth env = Inr h"
  by (simp add: checkHealth_def split: sum.splits)

lemma checkHealth_unhealthy:
  "axios_get_health env = Inl e \<Longrightarrow> checkHealth env = Inr (Unhealthy (message e))"
  by (simp add: checkHealth_def)

lemma getPersonalizedRecommendations_returns:
  "limit \<le> 4294967295 \<Longrightarrow>
     \<exists>r. fst (getPersonalizedRecommendations env userId limit st) = Inr r"
proof -
  assume "limit \<le> 4294967295"
  then obtain r where "personalized_fallback limit = Inr r"
    using personalized_fallback_raises [of limit]
    by (cases "personalized_fallback limit") auto
  then show ?thesis
    by (simp add: getPersonalizedRecommendations_def Let_def
        split: prod.splits option.splits sum.splits)
qed

text \<open>
  Claim C8. No operation may raise. The \<open>catch\<close> block of the personalized operation
  evaluates \<open>Array.from({ length: limit }, ...)\<close>, and a length above \<open>2 ^ 32 - 1\<close> makes
  the array constructor raise a \<open>RangeError\<close> there, outside any \<open>try\<close>: with the ranking
  service out of reach, the call for user 7 with limit 4294967296 rejects.
\<close>

theorem getPersonalizedRecommendations_raises_at_huge_limit:
  "fst (getPersonalizedRecommendations offline_env 7 4294967296 initial_state)
     = Inl (RangeError ''Invalid array length'')"
  by (simp add: getPersonalizedRecommendations_def initial_state_def cache_get_def
      offline_env_def dbAsync_all_def personalized_fallback_def array_from_length_def Let_def)

section \<open>The ranking service out of reach\<close>

lemma down_post: "service_down env \<Longrightarrow> \<exists>e. axios_post env req = Inl e"
  by (cases "axios_post env req") (auto simp: service_down_def dest: spec[of _ req])

lemma personalized_down_result:
  assumes "service_down env" "data st (personalized_key u n) = None"
  shows "fst (getPersonalizedRecommendations env u n st) = personalized_fallback n"
proof -
  obtain e where "axios_post env (Recommendations u (db_rows env (RatingsNewestFirst u))
      (map movie_id (db_rows env (LikedMovies u))) n) = Inl e"
    using down_post[OF assms(1)] by blast
  then show ?thesis
    using assms(2)
    by (simp add: getPersonalizedRecommendations_def cache_get_absent dbAsync_all_def Let_def
        split: option.splits)
qed

lemma perform_down_empty:
  assumes "service_down env" "data st = Map.empty"
  shows "data (perform env c st) = Map.empty"
proof (cases c)
  case (GetPersonalized u n)
  obtain e where "axios_post env (Recommendations u (db_rows env (RatingsNewestFirst u))
      (map movie_id (db_rows env (LikedMovies u))) n) = Inl e"
    using down_post[OF assms(1)] by blast
  then show ?thesis using assms(2) GetPersonalized
    by (simp add: getPersonalizedRecommendations_def cache_get_def dbAsync_all_def Let_def
        split: option.splits)
next
  case (GetSimilar m n)
  obtain e where "axios_post env (Similar m n) = Inl e"
    using down_post[OF assms(1)] by blast
  then show ?thesis using assms(2) GetSimilar
    by (simp add: getSimilarMovies_def cache_get_def Let_def)
next
  case (GetCollaborative u n)
  then show ?thesis using assms(2)
    by (simp add: getCollaborativeRecommendations_def Let_def split: sum.splits)
next
  case (ClearUser u)
  then show ?thesis by (simp add: clearUserCache_def assms(2) cong: if_cong)
next
  case CheckHealth
  then show ?thesis using assms(2) by simp
qed

lemma run_down_empty:
  "\<forall>(e, c) \<in> set h. service_down e \<Longrightarrow> data st = Map.empty \<Longrightarrow> data (run h st) = Map.empty"
proof (induction h arbitrary: st)
  case Nil
  then show ?case by simp
next
  case (Cons a h)
  obtain e c where a: "a = (e, c)" by (cases a)
  with Cons.prems have "service_down e" by simp
  then have "data (perform e c st) = Map.empty"
    using Cons.prems(2) by (rule perform_down_empty)
  moreover have "\<forall>(e, c) \<in> set h. service_down e" using Cons.prems(1) by simp
  ultimately show ?case using Cons.IH a by simp
qed

lemma fallback_scores_5:
  "map fallback_score [0..4] = [fl (9 / 10), fl (17 / 20), fl (4 / 5), fl (3 / 4), fl (7 / 10)]"
  by code_simp

lemma personalized_fallback_5:
  "personalized_fallback 5 =
     Inr \<lparr>movie_ids = [550, 278, 680, 155, 13],
          scores = [fl (9 / 10), fl (17 / 20), fl (4 / 5), fl (3 / 4), fl (7 / 10)],
          method_tag = ''fallback''\<rparr>"
  using fallback_scores_5
  by (simp add: personalized_fallback_def array_from_length_def slice_to_def
      fallback_movie_ids_def Let_def)

text \<open>
  Claim C3. When every call to the ranking service fails, from the start of the process
  on, \<open>getPersonalizedRecommendations(7, 5)\<close> returns the ids 550, 278, 680, 155, 13,
  the scores 0.9, 0.85, 0.8, 0.75, 0.7 (the binary64 values of these decimals) and
  the method \<open>fallback\<close>, whatever calls came before and whatever the store holds.
\<close>

theorem fallback_when_service_down:
  assumes "\<forall>(e, c) \<in> set history. service_down e" and "service_down env"
  shows "fst (getPersonalizedRecommendations env 7 5 (run history initial_state)) =
     Inr \<lparr>movie_ids = [550, 278, 680, 155, 13],
          scores = [fl (9 / 10), fl (17 / 20), fl (4 / 5), fl (3 / 4), fl (7 / 10)],
          method_tag = ''fallback''\<rparr>"
proof -
  have "data (run history initial_state) = Map.empty"
    using assms(1) by (rule run_down_empty) (simp add: initial_state_def)
  then have "data (run history initial_state) (personalized_key 7 5) = None" by simp
  with assms(2) show ?thesis
    by (simp add: personalized_down_result personalized_fallback_5)
qed

theorem fallback_when_service_down_witness:
  "service_down offline_env \<and>
   fst (getPersonalizedRecommendations offline_env 7 5
          (run [(offline_env, GetPersonalized 7 5), (online_env\<lparr>axios_post := axios_post offline_env\<rparr>, GetSimilar 3 4)] initial_state)) =
     Inr \<lparr>movie_ids = [550, 278, 680, 155, 13],
          scores = [fl (9 / 10), fl (17 / 20), fl (4 / 5), fl (3 / 4), fl (7 / 10)],
          method_tag = ''fallback''\<rparr>"
  using fallback_when_service_down
    [of "[(offline_env, GetPersonalized 7 5), (online_env\<lparr>axios_post := axios_post offline_env\<rparr>, GetSimilar 3 4)]" offline_env]
  by (simp add: service_down_def offline_env_def)

section \<open>Enrichment\<close>

lemma zip_with_index: "zip xs [0..<length xs] = map (\<lambda>i. (xs ! i, i)) [0..<length xs]"
proof -
  have "zip xs [0..<length xs] = zip (map (\<lambda>i. xs ! i) [0..<length xs]) [0..<length xs]"
    by (simp add: map_nth)
  also have "\<dots> = map (\<lambda>i. (xs ! i, i)) [0..<length xs]"
    by (simp add: zip_map1 zip_same_conv_map)
  finally show ?thesis .
qed

lemma enrich_fst:
  "fst (enrich field fetch r) =
     map (\<lambda>i. \<lparr>details = projr (fetch (movie_ids r ! i)), score_name = field,
                score = index_or_undefined (scores r) i\<rparr>)
         (filter (\<lambda>i. \<not> isl (fetch (movie_ids r ! i))) [0..<length (movie_ids r)])"
proof -
  let ?g = "\<lambda>i. case fetch (movie_ids r ! i) of
                 Inr d \<Rightarrow> Some \<lparr>details = d, score_name = field,
                                score = index_or_undefined (scores r) i\<rparr>
               | Inl e \<Rightarrow> None"
  have keep: "(?g i \<noteq> None) = (\<not> isl (fetch (movie_ids r ! i)))" for i
    by (cases "fetch (movie_ids r ! i)") auto
  have val: "\<not> isl (fetch (movie_ids r ! i)) \<Longrightarrow>
      the (?g i) = \<lparr>details = projr (fetch (movie_ids r ! i)), score_name = field,
                     score = index_or_undefined (scores r) i\<rparr>" for i
    by (cases "fetch (movie_ids r ! i)") auto
  have "fst (enrich field fetch r) =
      map the (filter (\<lambda>m. m \<noteq> None) (map ?g [0..<length (movie_ids r)]))"
    by (simp add: enrich_def Let_def zip_with_index comp_def)
  also have "\<dots> = map (\<lambda>i. the (?g i)) (filter (\<lambda>i. ?g i \<noteq> None) [0..<length (movie_ids r)])"
    by (simp add: filter_map comp_def)
  also have "\<dots> = map (\<lambda>i. the (?g i))
         (filter (\<lambda>i. \<not> isl (fetch (movie_ids r ! i))) [0..<length (movie_ids r)])"
    by (simp only: keep)
  also have "\<dots> = map (\<lambda>i. \<lparr>details = projr (fetch (movie_ids r ! i)), score_name = field,
                score = index_or_undefined (scores r) i\<rparr>)
         (filter (\<lambda>i. \<not> isl (fetch (movie_ids r ! i))) [0..<length (movie_ids r)])"
    by (rule map_cong) (simp_all add: val)
  finally show ?thesis .
qed

lemma enrich_snd: "snd (enrich field fetch r) = length (fst (enrich field fetch r))"
  by (simp add: enrich_def Let_def)

lemma enrich_example:
  assumes "fetch 1 = Inr m1" "fetch 2 = Inl e" "fetch 3 = Inr m3"
  shows "enrich field fetch \<lparr>movie_ids = [1, 2, 3], scores = [a, b, c], method_tag = tag\<rparr> =
     ([\<lparr>details = m1, score_name = field, score = Some a\<rparr>,
       \<lparr>details = m3, score_name = field, score = Some c\<rparr>], 2)"
  using assms
  by (simp add: enrich_def Let_def index_or_undefined_def upt_rec)

text \<open>
  Claim C5. The enrichment returns an item exactly for the positions of \<open>movie_ids\<close>
  whose fetch succeeded, in the order of \<open>movie_ids\<close> (the positions are taken in
  increasing order, whatever the scores are), each with the fetched payload and the score
  found at its own position under the field name of the caller, together with the number
  of items. For the ids 1, 2, 3 and a fetcher that fails for id 2 only, the items are
  those of ids 1 and 3, in this order, with the first and the third score.
\<close>

theorem enrich_keeps_rank_order:
  "fst (enrich field fetch r) =
     map (\<lambda>i. \<lparr>details = projr (fetch (movie_ids r ! i)), score_name = field,
                score = index_or_undefined (scores r) i\<rparr>)
         (filter (\<lambda>i. \<not> isl (fetch (movie_ids r ! i))) [0..<length (movie_ids r)])
   \<and> snd (enrich field fetch r) = length (fst (enrich field fetch r))
   \<and> (fetch 1 = Inr m1 \<and> fetch 2 = Inl e \<and> fetch 3 = Inr m3 \<longrightarrow>
        enrich field fetch \<lparr>movie_ids = [1, 2, 3], scores = [a, b, c], method_tag = tag\<rparr> =
          ([\<lparr>details = m1, score_name = field, score = Some a\<rparr>,
            \<lparr>details = m3, score_name = field, score = Some c\<rparr>], 2))"
  using enrich_fst enrich_snd enrich_example by blast

theorem enrich_keeps_rank_order_witness:
  "enrich ''recommendation_score''
     (\<lambda>i. if i = 2 then Inl (Rejected ''Request failed with status code 404'')
           else Inr (''movie '' @ toString i))
     \<lparr>movie_ids = [1, 2, 3], scores = [fl (9 / 10), fl (4 / 5), fl (7 / 10)], method_tag = ''hybrid''\<rparr> =
     ([\<lparr>details = ''movie 1'', score_name = ''recommendation_score'', score = Some (fl (9 / 10))\<rparr>,
       \<lparr>details = ''movie 3'', score_name = ''recommendation_score'', score = Some (fl (7 / 10))\<rparr>], 2)"
  using enrich_keeps_rank_order
    [of "''recommendation_score''"
        "\<lambda>i. if i = 2 then Inl (Rejected ''Request failed with status code 404'')
           else Inr (''movie '' @ toString i)"
        "\<lparr>movie_ids = [1, 2, 3], scores = [fl (9 / 10), fl (4 / 5), fl (7 / 10)], method_tag = ''hybrid''\<rparr>"
        "''movie 1''" "Rejected ''Request failed with status code 404''" "''movie 3''"
        "fl (9 / 10)" "fl (4 / 5)" "fl (7 / 10)" "''hybrid''"]
  by (simp add: toString_def digit_char_def)

section \<open>The collaborative operation\<close>

text \<open>
  Claim C6, as stated, fails when the query for the ratings is rejected: the user has no
  stored ratings, no request is posted, and yet the result is tagged \<open>fallback\<close>, not
  \<open>no_data\<close>.
\<close>

theorem collaborative_fallback_without_ratings:
  "db_rows db_down_env (Ratings 7) = []
   \<and> fst (getCollaborativeRecommendations db_down_env 7 10 initial_state)
       = Inr \<lparr>movie_ids = [], scores = [], method_tag = ''fallback''\<rparr>
   \<and> requests (snd (getCollaborativeRecommendations db_down_env 7 10 initial_state)) = []"
  by (simp add: getCollaborativeRecommendations_def db_down_env_def dbAsync_all_def
      empty_result_def initial_state_def)

text \<open>
  Claim C6, amended. If the query for the ratings succeeds and returns no row, the
  operation returns the empty result tagged \<open>no_data\<close> and posts no request (the state,
  which records the requests, is unchanged). If the query is rejected, it returns the
  empty result tagged \<open>fallback\<close>, again without a request. With ratings, it posts one
  request; when that fails the result is the empty one tagged \<open>fallback\<close>, and when it
  succeeds the result is the payload of the service.
\<close>

theorem getCollaborativeRecommendations_outcomes:
  "(db_err env (Ratings userId) = None \<and> db_rows env (Ratings userId) = [] \<longrightarrow>
      getCollaborativeRecommendations env userId limit st
        = (Inr \<lparr>movie_ids = [], scores = [], method_tag = ''no_data''\<rparr>, st))
   \<and> (db_err env (Ratings userId) = Some m \<longrightarrow>
      getCollaborativeRecommendations env userId limit st
        = (Inr \<lparr>movie_ids = [], scores = [], method_tag = ''fallback''\<rparr>, st))
   \<and> (db_err env (Ratings userId) = None \<and> db_rows env (Ratings userId) \<noteq> []
        \<and> axios_post env (Collaborative userId (db_rows env (Ratings userId)) limit) = Inl e \<longrightarrow>
      getCollaborativeRecommendations env userId limit st
        = (Inr \<lparr>movie_ids = [], scores = [], method_tag = ''fallback''\<rparr>,
           st\<lparr>requests := requests st
              @ [Collaborative userId (db_rows env (Ratings userId)) limit]\<rparr>))
   \<and> (db_err env (Ratings userId) = None \<and> db_rows env (Ratings userId) \<noteq> []
        \<and> axios_post env (Collaborative userId (db_rows env (Ratings userId)) limit) = Inr r \<longrightarrow>
      getCollaborativeRecommendations env userId limit st
        = (Inr r,
           st\<lparr>requests := requests st
              @ [Collaborative userId (db_rows env (Ratings userId)) limit]\<rparr>))"
  by (simp add: getCollaborativeRecommendations_def dbAsync_all_def empty_result_def Let_def)

theorem getCollaborativeRecommendations_outcomes_witness:
  "getCollaborativeRecommendations offline_env 7 10 initial_state
     = (Inr \<lparr>movie_ids = [], scores = [], method_tag = ''no_data''\<rparr>, initial_state)
   \<and> getCollaborativeRecommendations db_down_env 7 10 initial_state
     = (Inr \<lparr>movie_ids = [], scores = [], method_tag = ''fallback''\<rparr>, initial_state)
   \<and> getCollaborativeRecommendations (online_env\<lparr>axios_post := axios_post offline_env\<rparr>) 7 10
        initial_state
     = (Inr \<lparr>movie_ids = [], scores = [], method_tag = ''fallback''\<rparr>,
        initial_state\<lparr>requests := [Collaborative 7 [\<lparr>movie_id = 603, rating = Some 4\<rparr>] 10]\<rparr>)
   \<and> getCollaborativeRecommendations online_env 7 10 initial_state
     = (Inr \<lparr>movie_ids = [603, 604], scores = [1, 1 / 2], method_tag = ''hybrid''\<rparr>,
        initial_state\<lparr>requests := [Collaborative 7 [\<lparr>movie_id = 603, rating = Some 4\<rparr>] 10]\<rparr>)"
  using getCollaborativeRecommendations_outcomes
      [where env = offline_env and userId = 7 and limit = 10 and st = initial_state]
    getCollaborativeRecommendations_outcomes
      [where env = db_down_env and userId = 7 and limit = 10 and st = initial_state
         and m = "''SQLITE_BUSY: database is locked''"]
    getCollaborativeRecommendations_outcomes
      [where env = "online_env\<lparr>axios_post := axios_post offline_env\<rparr>" and userId = 7
         and limit = 10 and st = initial_state
         and e = "Rejected ''timeout of 10000ms exceeded''"]
    getCollaborativeRecommendations_outcomes
      [where env = online_env and userId = 7 and limit = 10 and st = initial_state
         and r = "\<lparr>movie_ids = [603, 604], scores = [1, 1 / 2], method_tag = ''hybrid''\<rparr>"]
  by (simp add: offline_env_def online_env_def db_down_env_def initial_state_def)

section \<open>What is written to the cache\<close>

lemma cache_get_miss_absent:
  "fst (cache_get key now d) = None \<Longrightarrow> snd (cache_get key now d) key = None"
  by (auto simp: cache_get_def split: option.splits if_splits)

lemma cache_get_other_key:
  "k \<noteq> key \<Longrightarrow> snd (cache_get key now d) k = d k"
  by (auto simp: cache_get_def split: option.splits if_splits)

lemma cache_get_hit_unchanged:
  "fst (cache_get key now d) = Some v \<Longrightarrow> snd (cache_get key now d) = d"
  by (auto simp: cache_get_def split: option.splits if_splits)

lemma personalized_hit:
  assumes "fst (cache_get (personalized_key u n) (now_get env) (data st)) = Some v"
  shows "getPersonalizedRecommendations env u n st = (Inr v, st)"
proof -
  obtain c d1 where cg: "cache_get (personalized_key u n) (now_get env) (data st) = (c, d1)"
    by (cases "cache_get (personalized_key u n) (now_get env) (data st)")
  with assms have c: "c = Some v" by simp
  have "d1 = data st" using cache_get_hit_unchanged [OF assms] cg by simp
  then show ?thesis
    by (simp add: getPersonalizedRecommendations_def Let_def cg c)
qed

lemma personalized_miss:
  assumes "fst (cache_get (personalized_key u n) (now_get env) (data st)) = None"
  shows "getPersonalizedRecommendations env u n st =
     (case dbAsync_all env (RatingsNewestFirst u) of
        Inl e \<Rightarrow>
          (personalized_fallback n,
           st\<lparr>data := snd (cache_get (personalized_key u n) (now_get env) (data st))\<rparr>)
      | Inr ratings \<Rightarrow>
         (case dbAsync_all env (LikedMovies u) of
            Inl e \<Rightarrow>
              (personalized_fallback n,
               st\<lparr>data := snd (cache_get (personalized_key u n) (now_get env) (data st))\<rparr>)
          | Inr likes \<Rightarrow>
             (case axios_post env (Recommendations u ratings (map movie_id likes) n) of
                Inl e \<Rightarrow>
                  (personalized_fallback n,
                   st\<lparr>data := snd (cache_get (personalized_key u n) (now_get env) (data st)),
                      requests := requests st
                        @ [Recommendations u ratings (map movie_id likes) n]\<rparr>)
              | Inr r \<Rightarrow>
                  (Inr r,
                   st\<lparr>data := cache_set (personalized_key u n) r 3600 (now_set env)
                        (snd (cache_get (personalized_key u n) (now_get env) (data st))),
                      requests := requests st
                        @ [Recommendations u ratings (map movie_id likes) n]\<rparr>))))"
proof -
  obtain c d1 where cg: "cache_get (personalized_key u n) (now_get env) (data st) = (c, d1)"
    by (cases "cache_get (personalized_key u n) (now_get env) (data st)")
  with assms have c: "c = None" by simp
  show ?thesis
    by (simp add: getPersonalizedRecommendations_def Let_def cg c split: sum.splits)
qed

lemma similar_hit:
  assumes "fst (cache_get (similar_key m n) (now_get env) (data st)) = Some v"
  shows "getSimilarMovies env m n st = (Inr v, st)"
proof -
  obtain c d1 where cg: "cache_get (similar_key m n) (now_get env) (data st) = (c, d1)"
    by (cases "cache_get (similar_key m n) (now_get env) (data st)")
  with assms have c: "c = Some v" by simp
  have "d1 = data st" using cache_get_hit_unchanged [OF assms] cg by simp
  then show ?thesis
    by (simp add: getSimilarMovies_def Let_def cg c)
qed

lemma similar_miss:
  assumes "fst (cache_get (similar_key m n) (now_get env) (data st)) = None"
  shows "getSimilarMovies env m n st =
     (case axios_post env (Similar m n) of
        Inl e \<Rightarrow>
          (Inr (empty_result ''fallback''),
           st\<lparr>data := snd (cache_get (similar_key m n) (now_get env) (data st)),
              requests := requests st @ [Similar m n]\<rparr>)
      | Inr r \<Rightarrow>
          (Inr r,
           st\<lparr>data := cache_set (similar_key m n) r 7200 (now_set env)
                (snd (cache_get (similar_key m n) (now_get env) (data st))),
              requests := requests st @ [Similar m n]\<rparr>))"
proof -
  obtain c d1 where cg: "cache_get (similar_key m n) (now_get env) (data st) = (c, d1)"
    by (cases "cache_get (similar_key m n) (now_get env) (data st)")
  with assms have c: "c = None" by simp
  show ?thesis
    by (simp add: getSimilarMovies_def Let_def cg c split: sum.splits)
qed

lemma collaborative_data:
  "data (snd (getCollaborativeRecommendations env u n st)) = data st"
  by (simp add: getCollaborativeRecommendations_def Let_def split: sum.splits)

lemma personalized_failure_not_cached:
  assumes down: "service_down env"
    and miss: "fst (cache_get (personalized_key u n) (now_get env) (data st)) = None"
  shows "data (snd (getPersonalizedRecommendations env u n st)) (personalized_key u n) = None"
    and "k \<noteq> personalized_key u n \<Longrightarrow>
      data (snd (getPersonalizedRecommendations env u n st)) k = data st k"
proof -
  obtain e where e: "axios_post env (Recommendations u (db_rows env (RatingsNewestFirst u))
      (map movie_id (db_rows env (LikedMovies u))) n) = Inl e"
    using down_post [OF down] by blast
  have st': "data (snd (getPersonalizedRecommendations env u n st)) =
      snd (cache_get (personalized_key u n) (now_get env) (data st))"
    by (simp add: personalized_miss [OF miss] dbAsync_all_def e split: option.splits)
  show "data (snd (getPersonalizedRecommendations env u n st)) (personalized_key u n) = None"
    by (simp add: st' cache_get_miss_absent [OF miss])
  show "k \<noteq> personalized_key u n \<Longrightarrow>
      data (snd (getPersonalizedRecommendations env u n st)) k = data st k"
    by (simp add: st' cache_get_other_key)
qed

lemma similar_failure_not_cached:
  assumes down: "service_down env"
    and miss: "fst (cache_get (similar_key m n) (now_get env) (data st)) = None"
  shows "data (snd (getSimilarMovies env m n st)) (similar_key m n) = None"
    and "k \<noteq> similar_key m n \<Longrightarrow> data (snd (getSimilarMovies env m n st)) k = data st k"
proof -
  obtain e where e: "axios_post env (Similar m n) = Inl e"
    using down_post [OF down] by blast
  have st': "data (snd (getSimilarMovies env m n st)) =
      snd (cache_get (similar_key m n) (now_get env) (data st))"
    by (simp add: similar_miss [OF miss] e)
  show "data (snd (getSimilarMovies env m n st)) (similar_key m n) = None"
    by (simp add: st' cache_get_miss_absent [OF miss])
  show "k \<noteq> similar_key m n \<Longrightarrow> data (snd (getSimilarMovies env m n st)) k = data st k"
    by (simp add: st' cache_get_other_key)
qed

lemma personalized_retry:
  assumes "data st (personalized_key u n) = None"
    and "db_err env (RatingsNewestFirst u) = None" and "db_err env (LikedMovies u) = None"
  shows "requests (snd (getPersonalizedRecommendations env u n st)) =
     requests st @ [Recommendations u (db_rows env (RatingsNewestFirst u))
       (map movie_id (db_rows env (LikedMovies u))) n]"
proof -
  have miss: "fst (cache_get (personalized_key u n) (now_get env) (data st)) = None"
    using assms(1) by (simp add: cache_get_absent)
  show ?thesis
    by (simp add: personalized_miss [OF miss] dbAsync_all_def assms(2,3) split: sum.splits)
qed

lemma similar_retry:
  assumes "data st (similar_key m n) = None"
  shows "requests (snd (getSimilarMovies env m n st)) = requests st @ [Similar m n]"
proof -
  have miss: "fst (cache_get (similar_key m n) (now_get env) (data st)) = None"
    using assms(1) by (simp add: cache_get_absent)
  show ?thesis
    by (simp add: similar_miss [OF miss] split: sum.splits)
qed

lemma personalized_success_cached:
  assumes miss: "fst (cache_get (personalized_key u n) (now_get env) (data st)) = None"
    and "db_err env (RatingsNewestFirst u) = None" and "db_err env (LikedMovies u) = None"
    and "axios_post env (Recommendations u (db_rows env (RatingsNewestFirst u))
       (map movie_id (db_rows env (LikedMovies u))) n) = Inr r"
  shows "fst (getPersonalizedRecommendations env u n st) = Inr r"
    and "data (snd (getPersonalizedRecommendations env u n st)) (personalized_key u n) =
      Some \<lparr>item_value = r, item_expiry = now_set env + 3600 * 1000\<rparr>"
  by (simp_all add: personalized_miss [OF miss] dbAsync_all_def assms(2,3,4) cache_set_def)

lemma similar_success_cached:
  assumes miss: "fst (cache_get (similar_key m n) (now_get env) (data st)) = None"
    and "axios_post env (Similar m n) = Inr r"
  shows "fst (getSimilarMovies env m n st) = Inr r"
    and "data (snd (getSimilarMovies env m n st)) (similar_key m n) =
      Some \<lparr>item_value = r, item_expiry = now_set env + 7200 * 1000\<rparr>"
  by (simp_all add: similar_miss [OF miss] assms(2) cache_set_def)

lemma cache_get_key_cases:
  "snd (cache_get key now d) k = d k \<or> snd (cache_get key now d) k = None"
  by (auto simp: cache_get_def split: option.splits if_splits)

lemma personalized_only_success_writes:
  "data (snd (getPersonalizedRecommendations env u n st)) k = data st k
   \<or> data (snd (getPersonalizedRecommendations env u n st)) k = None
   \<or> (k = personalized_key u n
       \<and> (\<exists>r req. axios_post env req = Inr r
             \<and> fst (getPersonalizedRecommendations env u n st) = Inr r
             \<and> data (snd (getPersonalizedRecommendations env u n st)) k
                 = Some \<lparr>item_value = r, item_expiry = now_set env + 3600 * 1000\<rparr>))"
proof (cases "fst (cache_get (personalized_key u n) (now_get env) (data st))")
  case (Some v)
  then show ?thesis by (simp add: personalized_hit)
next
  case None
  note miss = personalized_miss [OF None]
  note old = cache_get_key_cases [of "personalized_key u n" "now_get env" "data st" k]
  show ?thesis
  proof (cases "dbAsync_all env (RatingsNewestFirst u)")
    case (Inl e)
    then show ?thesis using old by (auto simp add: miss)
  next
    case ratings: (Inr ratings)
    show ?thesis
    proof (cases "dbAsync_all env (LikedMovies u)")
      case (Inl e)
      then show ?thesis using old by (auto simp add: miss ratings)
    next
      case likes: (Inr likes)
      show ?thesis
      proof (cases "axios_post env (Recommendations u ratings (map movie_id likes) n)")
        case (Inl e)
        then show ?thesis using old by (auto simp add: miss ratings likes)
      next
        case (Inr r)
        show ?thesis
        proof (cases "k = personalized_key u n")
          case True
          then show ?thesis using Inr
            by (auto simp: miss ratings likes cache_set_def)
        next
          case False
          then show ?thesis using old Inr
            by (auto simp add: miss ratings likes cache_set_def)
        qed
      qed
    qed
  qed
qed

lemma similar_only_success_writes:
  "data (snd (getSimilarMovies env m n st)) k = data st k
   \<or> data (snd (getSimilarMovies env m n st)) k = None
   \<or> (k = similar_key m n
       \<and> (\<exists>r req. axios_post env req = Inr r
             \<and> fst (getSimilarMovies env m n st) = Inr r
             \<and> data (snd (getSimilarMovies env m n st)) k
                 = Some \<lparr>item_value = r, item_expiry = now_set env + 7200 * 1000\<rparr>))"
proof (cases "fst (cache_get (similar_key m n) (now_get env) (data st))")
  case (Some v)
  then show ?thesis by (simp add: similar_hit)
next
  case None
  note miss = similar_miss [OF None]
  note old = cache_get_key_cases [of "similar_key m n" "now_get env" "data st" k]
  show ?thesis
  proof (cases "axios_post env (Similar m n)")
    case (Inl e)
    then show ?thesis using old by (auto simp add: miss)
  next
    case (Inr r)
    show ?thesis
    proof (cases "k = similar_key m n")
      case True
      then show ?thesis using Inr by (auto simp: miss cache_set_def)
    next
      case False
      then show ?thesis using old Inr by (auto simp add: miss cache_set_def)
    qed
  qed
qed

text \<open>
  Claim C7. When the ranking service fails in the personalized or in the similarity
  operation, nothing is written to the cache: after the call the request's key is absent
  and every other key is as before, so the next call with the same arguments misses the
  cache again and posts its request to the ranking service (the personalized one once its
  two queries succeed). A successful response is stored under the request's key for 3600
  seconds (personalized) or 7200 seconds (similarity) after the clock reading of the
  store, and no other write ever happens: every key is as before, or absent, or it is
  the request's key holding the response that the service gave and the operation
  returned. The collaborative operation leaves the cache as it is on every path.
\<close>

theorem only_successful_responses_are_cached:
  "(service_down env
      \<and> fst (cache_get (personalized_key u n) (now_get env) (data st)) = None \<longrightarrow>
      data (snd (getPersonalizedRecommendations env u n st)) (personalized_key u n) = None
    \<and> (\<forall>k. k \<noteq> personalized_key u n \<longrightarrow>
          data (snd (getPersonalizedRecommendations env u n st)) k = data st k)
    \<and> (db_err env2 (RatingsNewestFirst u) = None \<and> db_err env2 (LikedMovies u) = None \<longrightarrow>
          requests (snd (getPersonalizedRecommendations env2 u n
              (snd (getPersonalizedRecommendations env u n st))))
          = requests (snd (getPersonalizedRecommendations env u n st))
            @ [Recommendations u (db_rows env2 (RatingsNewestFirst u))
                 (map movie_id (db_rows env2 (LikedMovies u))) n]))
   \<and> (service_down env
      \<and> fst (cache_get (similar_key m n) (now_get env) (data st)) = None \<longrightarrow>
      data (snd (getSimilarMovies env m n st)) (similar_key m n) = None
    \<and> (\<forall>k. k \<noteq> similar_key m n \<longrightarrow> data (snd (getSimilarMovies env m n st)) k = data st k)
    \<and> requests (snd (getSimilarMovies env2 m n (snd (getSimilarMovies env m n st))))
        = requests (snd (getSimilarMovies env m n st)) @ [Similar m n])
   \<and> (fst (cache_get (personalized_key u n) (now_get env) (data st)) = None
      \<and> db_err env (RatingsNewestFirst u) = None \<and> db_err env (LikedMovies u) = None
      \<and> axios_post env (Recommendations u (db_rows env (RatingsNewestFirst u))
           (map movie_id (db_rows env (LikedMovies u))) n) = Inr r \<longrightarrow>
      fst (getPersonalizedRecommendations env u n st) = Inr r
    \<and> data (snd (getPersonalizedRecommendations env u n st)) (personalized_key u n)
        = Some \<lparr>item_value = r, item_expiry = now_set env + 3600 * 1000\<rparr>)
   \<and> (fst (cache_get (similar_key m n) (now_get env) (data st)) = None
      \<and> axios_post env (Similar m n) = Inr r' \<longrightarrow>
      fst (getSimilarMovies env m n st) = Inr r'
    \<and> data (snd (getSimilarMovies env m n st)) (similar_key m n)
        = Some \<lparr>item_value = r', item_expiry = now_set env + 7200 * 1000\<rparr>)
   \<and> (data (snd (getPersonalizedRecommendations env u n st)) k = data st k
      \<or> data (snd (getPersonalizedRecommendations env u n st)) k = None
      \<or> (k = personalized_key u n
          \<and> (\<exists>r req. axios_post env req = Inr r
                \<and> fst (getPersonalizedRecommendations env u n st) = Inr r
                \<and> data (snd (getPersonalizedRecommendations env u n st)) k
                    = Some \<lparr>item_value = r, item_expiry = now_set env + 3600 * 1000\<rparr>)))
   \<and> (data (snd (getSimilarMovies env m n st)) k = data st k
      \<or> data (snd (getSimilarMovies env m n st)) k = None
      \<or> (k = similar_key m n
          \<and> (\<exists>r req. axios_post env req = Inr r
                \<and> fst (getSimilarMovies env m n st) = Inr r
                \<and> data (snd (getSimilarMovies env m n st)) k
                    = Some \<lparr>item_value = r, item_expiry = now_set env + 7200 * 1000\<rparr>)))
   \<and> data (snd (getCollaborativeRecommendations env u n st)) = data st"
proof (intro conjI impI allI)
  assume h: "service_down env
      \<and> fst (cache_get (personalized_key u n) (now_get env) (data st)) = None"
  then show absent: "data (snd (getPersonalizedRecommendations env u n st))
      (personalized_key u n) = None"
    by (simp add: personalized_failure_not_cached(1))
  show "data (snd (getPersonalizedRecommendations env u n st)) k = data st k"
    if "k \<noteq> personalized_key u n" for k
    using h that by (simp add: personalized_failure_not_cached(2))
  show "requests (snd (getPersonalizedRecommendations env2 u n
              (snd (getPersonalizedRecommendations env u n st))))
          = requests (snd (getPersonalizedRecommendations env u n st))
            @ [Recommendations u (db_rows env2 (RatingsNewestFirst u))
                 (map movie_id (db_rows env2 (LikedMovies u))) n]"
    if "db_err env2 (RatingsNewestFirst u) = None \<and> db_err env2 (LikedMovies u) = None"
    using absent that by (simp add: personalized_retry)
next
  assume h: "service_down env
      \<and> fst (cache_get (similar_key m n) (now_get env) (data st)) = None"
  then show absent: "data (snd (getSimilarMovies env m n st)) (similar_key m n) = None"
    by (simp add: similar_failure_not_cached(1))
  show "data (snd (getSimilarMovies env m n st)) k = data st k"
    if "k \<noteq> similar_key m n" for k
    using h that by (simp add: similar_failure_not_cached(2))
  show "requests (snd (getSimilarMovies env2 m n (snd (getSimilarMovies env m n st))))
        = requests (snd (getSimilarMovies env m n st)) @ [Similar m n]"
    using absent by (rule similar_retry)
next
  assume h: "fst (cache_get (personalized_key u n) (now_get env) (data st)) = None
      \<and> db_err env (RatingsNewestFirst u) = None \<and> db_err env (LikedMovies u) = None
      \<and> axios_post env (Recommendations u (db_rows env (RatingsNewestFirst u))
           (map movie_id (db_rows env (LikedMovies u))) n) = Inr r"
  then show "fst (getPersonalizedRecommendations env u n st) = Inr r"
    by (simp add: personalized_success_cached(1))
  from h show "data (snd (getPersonalizedRecommendations env u n st)) (personalized_key u n)
        = Some \<lparr>item_value = r, item_expiry = now_set env + 3600 * 1000\<rparr>"
    by (simp add: personalized_success_cached(2))
next
  assume h: "fst (cache_get (similar_key m n) (now_get env) (data st)) = None
      \<and> axios_post env (Similar m n) = Inr r'"
  then show "fst (getSimilarMovies env m n st) = Inr r'"
    by (simp add: similar_success_cached(1))
  from h show "data (snd (getSimilarMovies env m n st)) (similar_key m n)
        = Some \<lparr>item_value = r', item_expiry = now_set env + 7200 * 1000\<rparr>"
    by (simp add: similar_success_cached(2))
next
  show "data (snd (getPersonalizedRecommendations env u n st)) k = data st k
      \<or> data (snd (getPersonalizedRecommendations env u n st)) k = None
      \<or> (k = personalized_key u n
          \<and> (\<exists>r req. axios_post env req = Inr r
                \<and> fst (getPersonalizedRecommendations env u n st) = Inr r
                \<and> data (snd (getPersonalizedRecommendations env u n st)) k
                    = Some \<lparr>item_value = r, item_expiry = now_set env + 3600 * 1000\<rparr>))"
    by (rule personalized_only_success_writes)
next
  show "data (snd (getSimilarMovies env m n st)) k = data st k
      \<or> data (snd (getSimilarMovies env m n st)) k = None
      \<or> (k = similar_key m n
          \<and> (\<exists>r req. axios_post env req = Inr r
                \<and> fst (getSimilarMovies env m n st) = Inr r
                \<and> data (snd (getSimilarMovies env m n st)) k
                    = Some \<lparr>item_value = r, item_expiry = now_set env + 7200 * 1000\<rparr>))"
    by (rule similar_only_success_writes)
next
  show "data (snd (getCollaborativeRecommendations env u n st)) = data st"
    by (rule collaborative_data)
qed

theorem only_successful_responses_are_cached_witness:
  "service_down offline_env
   \<and> fst (cache_get (personalized_key 7 5) 0 (data initial_state)) = None
   \<and> data (snd (getPersonalizedRecommendations offline_env 7 5 initial_state))
        (personalized_key 7 5) = None
   \<and> requests (snd (getPersonalizedRecommendations online_env 7 5
         (snd (getPersonalizedRecommendations offline_env 7 5 initial_state))))
       = requests (snd (getPersonalizedRecommendations offline_env 7 5 initial_state))
         @ [Recommendations 7 [\<lparr>movie_id = 603, rating = Some 4\<rparr>] [603] 5]
   \<and> fst (cache_get (similar_key 42 5) 0 (data initial_state)) = None
   \<and> data (snd (getSimilarMovies offline_env 42 5 initial_state)) (similar_key 42 5) = None
   \<and> requests (snd (getSimilarMovies online_env 42 5
         (snd (getSimilarMovies offline_env 42 5 initial_state))))
       = requests (snd (getSimilarMovies offline_env 42 5 initial_state)) @ [Similar 42 5]
   \<and> fst (getPersonalizedRecommendations online_env 7 5 initial_state)
       = Inr \<lparr>movie_ids = [603, 604], scores = [1, 1 / 2], method_tag = ''hybrid''\<rparr>
   \<and> data (snd (getPersonalizedRecommendations online_env 7 5 initial_state))
        (personalized_key 7 5)
       = Some \<lparr>item_value = \<lparr>movie_ids = [603, 604], scores = [1, 1 / 2], method_tag = ''hybrid''\<rparr>,
               item_expiry = 3600005\<rparr>
   \<and> data (snd (getSimilarMovies online_env 42 5 initial_state)) (similar_key 42 5)
       = Some \<lparr>item_value = \<lparr>movie_ids = [603, 604], scores = [1, 1 / 2], method_tag = ''hybrid''\<rparr>,
               item_expiry = 7200005\<rparr>"
  using only_successful_responses_are_cached
      [where env = offline_env and ?env2.0 = online_env and u = 7 and n = 5 and m = 42
         and st = initial_state]
    only_successful_responses_are_cached
      [where env = online_env and u = 7 and n = 5 and m = 42 and st = initial_state
         and r = "\<lparr>movie_ids = [603, 604], scores = [1, 1 / 2], method_tag = ''hybrid''\<rparr>"
         and r' = "\<lparr>movie_ids = [603, 604], scores = [1, 1 / 2], method_tag = ''hybrid''\<rparr>"]
  by (simp add: service_down_def offline_env_def online_env_def initial_state_def
      cache_get_def)

end
